theory Spec2Isabelle
  imports
    Main
    "HOL-Library.Word"
    "HOL-Library.Char_ord"
    "HOL-Library.List_Lexorder"
begin

unbundle bit_operations_syntax

section \<open>Request signing of seaverse-go: \<^verbatim>\<open>signature/v1/hmac.go\<close>\<close>

text \<open>
  The package signs a flat mapping of named values: it canonicalizes the mapping into
  the string \<^verbatim>\<open>key1=value1&key2=value2\<close>, computes HMAC-SHA256 of that string under the
  signer's secret and returns the lowercase hexadecimal encoding of the tag.

  Go strings are byte sequences, and so are HOL strings (\<^typ>\<open>char\<close> is a byte); the
  order on \<^typ>\<open>string\<close> brought in by \<^verbatim>\<open>Char_ord\<close> and
  \<^verbatim>\<open>List_Lexorder\<close> is the byte-wise lexicographic order that Go's
  \<^verbatim>\<open><\<close> on strings and \<^verbatim>\<open>sort.Strings\<close> use.
\<close>

subsection \<open>Values of type \<^verbatim>\<open>any\<close>\<close>

text \<open>
  A parameter value is an interface value. \<^verbatim>\<open>valueToString\<close> switches on its dynamic
  type, so the model has one constructor per case of that switch, one for the nil
  interface and one for every other dynamic type. Machine integers are words
  (\<^verbatim>\<open>int\<close> and \<^verbatim>\<open>uint\<close> at their 64-bit width). Floating-point numbers (type
  \<open>'f\<close>, a \<^verbatim>\<open>float32\<close> being held as the \<^verbatim>\<open>float64\<close> it converts to) and values of
  other types (type \<open>'o\<close>) are left abstract.
\<close>

datatype ('f, 'o) any =
    VNil
  | VString string
  | VInt "64 word"
  | VInt32 "32 word"
  | VInt64 "64 word"
  | VUint "64 word"
  | VUint32 "32 word"
  | VUint64 "64 word"
  | VFloat32 'f
  | VFloat64 'f
  | VBool bool
  | VOther 'o

text \<open>
  The two standard-library renderings the model does not compute:
  \<^verbatim>\<open>strconv.FormatFloat(x, 'f', -1, bitSize)\<close> and \<^verbatim>\<open>fmt.Sprintf("%v", x)\<close>. Every
  definition below that reaches them takes them as the parameter \<open>L\<close>, and every
  theorem holds for all of them. They are functions: the rendering of a value is the
  same each time it is asked for, as it is for the scalar values the package is
  documented for.
\<close>

record ('f, 'o) stdlib =
  FormatFloat :: "'f \<Rightarrow> nat \<Rightarrow> string"
  Sprintf_v :: "'o \<Rightarrow> string"

subsection \<open>\<^verbatim>\<open>strconv\<close>: integers in base 10, booleans\<close>

text \<open>
  \<^verbatim>\<open>strconv.FormatUint(n, 10)\<close>: the decimal digits of \<open>n\<close>, most significant first,
  \<^verbatim>\<open>"0"\<close> for zero. \<^verbatim>\<open>strconv.FormatInt(i, 10)\<close> and \<^verbatim>\<open>strconv.Itoa\<close> put a minus
  sign before the digits of the absolute value of a negative number.
\<close>

fun FormatUint :: "nat \<Rightarrow> string" where
  "FormatUint n =
     (if n < 10 then [''0123456789'' ! n]
      else FormatUint (n div 10) @ [''0123456789'' ! (n mod 10)])"

declare FormatUint.simps [simp del]

definition FormatInt :: "int \<Rightarrow> string" where
  "FormatInt i = (if i < 0 then CHR ''-'' # FormatUint (nat (- i)) else FormatUint (nat i))"

definition Itoa :: "int \<Rightarrow> string" where
  "Itoa i = FormatInt i"

definition FormatBool :: "bool \<Rightarrow> string" where
  "FormatBool b = (if b then ''true'' else ''false'')"

subsection \<open>\<^verbatim>\<open>valueToString\<close>\<close>

fun valueToString :: "('f, 'o) stdlib \<Rightarrow> ('f, 'o) any \<Rightarrow> string" where
  "valueToString L VNil = ''''"
| "valueToString L (VString val) = val"
| "valueToString L (VInt val) = Itoa (sint val)"
| "valueToString L (VInt32 val) = FormatInt (sint val)"
| "valueToString L (VInt64 val) = FormatInt (sint val)"
| "valueToString L (VUint val) = FormatUint (unat val)"
| "valueToString L (VUint32 val) = FormatUint (unat val)"
| "valueToString L (VUint64 val) = FormatUint (unat val)"
| "valueToString L (VFloat32 val) = FormatFloat L val 32"
| "valueToString L (VFloat64 val) = FormatFloat L val 64"
| "valueToString L (VBool val) = FormatBool val"
| "valueToString L (VOther val) = Sprintf_v L val"

subsection \<open>Parameter mappings\<close>

text \<open>
  A non-nil \<^verbatim>\<open>map[string]any\<close> is given by its entries in the order in which a
  \<^verbatim>\<open>range\<close> statement visits them. Go leaves that order unspecified, and it may
  change from one traversal of a map to the next; what is fixed is that every key is
  visited once (\<open>wf_params\<close>) and that two traversals of the same map visit the same
  entries (\<open>same_map\<close>). The nil map is \<open>None\<close>.
\<close>

type_synonym ('f, 'o) params = "(string \<times> ('f, 'o) any) list"

definition wf_params :: "('f, 'o) params \<Rightarrow> bool" where
  "wf_params params = distinct (map fst params)"

definition same_map :: "('f, 'o) params \<Rightarrow> ('f, 'o) params \<Rightarrow> bool" where
  "same_map p q = (wf_params p \<and> wf_params q \<and> set p = set q)"

text \<open>\<^verbatim>\<open>params[k]\<close>: the value stored under \<open>k\<close>, the nil interface for a missing key.\<close>

definition index :: "('f, 'o) params \<Rightarrow> string \<Rightarrow> ('f, 'o) any" where
  "index params k = (case map_of params k of None \<Rightarrow> VNil | Some v \<Rightarrow> v)"

subsection \<open>\<^verbatim>\<open>buildSignatureString\<close>\<close>

text \<open>
  The three loops of the function, each with the variable it appends to as its last
  argument. The first collects the keys whose value is neither nil nor the empty
  string; the second renders each sorted key's value and skips a rendering that is
  empty; the third joins the pairs, writing the separator before every pair but the
  first.
\<close>

fun collectKeys :: "('f, 'o) params \<Rightarrow> string list \<Rightarrow> string list" where
  "collectKeys [] keys = keys"
| "collectKeys ((k, v) # rest) keys =
     (if v = VNil \<or> v = VString '''' then collectKeys rest keys
      else collectKeys rest (keys @ [k]))"

fun buildPairs ::
  "('f, 'o) stdlib \<Rightarrow> ('f, 'o) params \<Rightarrow> string list \<Rightarrow> string list \<Rightarrow> string list" where
  "buildPairs L params [] pairs = pairs"
| "buildPairs L params (k # keys) pairs =
     (let v = index params k;
          strValue = valueToString L v
      in if strValue = '''' then buildPairs L params keys pairs
         else buildPairs L params keys (pairs @ [k @ ''='' @ strValue]))"

fun joinPairs :: "nat \<Rightarrow> string list \<Rightarrow> string \<Rightarrow> string" where
  "joinPairs i [] result = result"
| "joinPairs i (pair # pairs) result =
     joinPairs (i + 1) pairs ((if i > 0 then result @ ''&'' else result) @ pair)"

definition buildSignatureString :: "('f, 'o) stdlib \<Rightarrow> ('f, 'o) params \<Rightarrow> string" where
  "buildSignatureString L params =
     (let keys = sort (collectKeys params []);
          pairs = buildPairs L params keys []
      in joinPairs 0 pairs '''')"

subsection \<open>\<^verbatim>\<open>crypto/sha256\<close>\<close>

text \<open>
  SHA-256 as the standard library computes it (FIPS 180-4): the message is padded with
  the byte \<^verbatim>\<open>0x80\<close>, zero bytes and its length in bits as a 64-bit big-endian number,
  so that the padded length is a multiple of 64; the digest is updated by each 64-byte
  block; the eight words of the digest are written big-endian.
\<close>

type_synonym byte = "8 word"
type_synonym uint32 = "32 word"
type_synonym digest =
  "uint32 \<times> uint32 \<times> uint32 \<times> uint32 \<times> uint32 \<times> uint32 \<times> uint32 \<times> uint32"

definition K256 :: "uint32 list" where
  "K256 =
    [0x428A2F98, 0x71374491, 0xB5C0FBCF, 0xE9B5DBA5,
     0x3956C25B, 0x59F111F1, 0x923F82A4, 0xAB1C5ED5,
     0xD807AA98, 0x12835B01, 0x243185BE, 0x550C7DC3,
     0x72BE5D74, 0x80DEB1FE, 0x9BDC06A7, 0xC19BF174,
     0xE49B69C1, 0xEFBE4786, 0x0FC19DC6, 0x240CA1CC,
     0x2DE92C6F, 0x4A7484AA, 0x5CB0A9DC, 0x76F988DA,
     0x983E5152, 0xA831C66D, 0xB00327C8, 0xBF597FC7,
     0xC6E00BF3, 0xD5A79147, 0x06CA6351, 0x14292967,
     0x27B70A85, 0x2E1B2138, 0x4D2C6DFC, 0x53380D13,
     0x650A7354, 0x766A0ABB, 0x81C2C92E, 0x92722C85,
     0xA2BFE8A1, 0xA81A664B, 0xC24B8B70, 0xC76C51A3,
     0xD192E819, 0xD6990624, 0xF40E3585, 0x106AA070,
     0x19A4C116, 0x1E376C08, 0x2748774C, 0x34B0BCB5,
     0x391C0CB3, 0x4ED8AA4A, 0x5B9CCA4F, 0x682E6FF3,
     0x748F82EE, 0x78A5636F, 0x84C87814, 0x8CC70208,
     0x90BEFFFA, 0xA4506CEB, 0xBEF9A3F7, 0xC67178F2]"

definition init256 :: digest where
  "init256 =
    (0x6A09E667, 0xBB67AE85, 0x3C6EF372, 0xA54FF53A,
     0x510E527F, 0x9B05688C, 0x1F83D9AB, 0x5BE0CD19)"

definition rotr :: "nat \<Rightarrow> uint32 \<Rightarrow> uint32" where
  "rotr n x = word_rotr n x"

definition beUint32 :: "byte list \<Rightarrow> uint32" where
  "beUint32 p =
     push_bit 24 (ucast (p ! 0)) OR push_bit 16 (ucast (p ! 1)) OR
     push_bit 8 (ucast (p ! 2)) OR ucast (p ! 3)"

definition bePutUint32 :: "uint32 \<Rightarrow> byte list" where
  "bePutUint32 x = [ucast (drop_bit 24 x), ucast (drop_bit 16 x), ucast (drop_bit 8 x), ucast x]"

definition bePutUint64 :: "64 word \<Rightarrow> byte list" where
  "bePutUint64 x =
     [ucast (drop_bit 56 x), ucast (drop_bit 48 x), ucast (drop_bit 40 x),
      ucast (drop_bit 32 x), ucast (drop_bit 24 x), ucast (drop_bit 16 x),
      ucast (drop_bit 8 x), ucast x]"

text \<open>The message schedule: the sixteen words of the block, extended to sixty-four.\<close>

fun schedule :: "nat \<Rightarrow> uint32 list \<Rightarrow> uint32 list" where
  "schedule 0 w = w"
| "schedule (Suc n) w =
     (let i = length w;
          v1 = w ! (i - 2);
          t1 = rotr 17 v1 XOR rotr 19 v1 XOR drop_bit 10 v1;
          v2 = w ! (i - 15);
          t2 = rotr 7 v2 XOR rotr 18 v2 XOR drop_bit 3 v2
      in schedule n (w @ [t1 + w ! (i - 7) + t2 + w ! (i - 16)]))"

fun round256 :: "uint32 \<times> uint32 \<Rightarrow> digest \<Rightarrow> digest" where
  "round256 (k, wi) (a, b, c, d, e, f, g, h) =
     (let t1 = h + (rotr 6 e XOR rotr 11 e XOR rotr 25 e) + ((e AND f) XOR (NOT e AND g)) + k + wi;
          t2 = (rotr 2 a XOR rotr 13 a XOR rotr 22 a) + ((a AND b) XOR (a AND c) XOR (b AND c))
      in (t1 + t2, a, b, c, d + t1, e, f, g))"

fun addDigest :: "digest \<Rightarrow> digest \<Rightarrow> digest" where
  "addDigest (h0, h1, h2, h3, h4, h5, h6, h7) (a, b, c, d, e, f, g, h) =
     (h0 + a, h1 + b, h2 + c, h3 + d, h4 + e, h5 + f, h6 + g, h7 + h)"

definition block :: "digest \<Rightarrow> byte list \<Rightarrow> digest" where
  "block dig p =
     (let w = schedule 48 (map (\<lambda>i. beUint32 (drop (4 * i) p)) [0..<16])
      in addDigest dig (fold round256 (zip K256 w) dig))"

fun blocks :: "byte list \<Rightarrow> byte list list" where
  "blocks p = (if length p < 64 then [] else take 64 p # blocks (drop 64 p))"

declare blocks.simps [simp del]

definition padding :: "nat \<Rightarrow> byte list" where
  "padding len =
     (let t = (if len mod 64 < 56 then 56 - len mod 64 else 64 + 56 - len mod 64)
      in 0x80 # replicate (t - 1) 0 @ bePutUint64 (push_bit 3 (of_nat len)))"

fun digestBytes :: "digest \<Rightarrow> byte list" where
  "digestBytes (h0, h1, h2, h3, h4, h5, h6, h7) =
     bePutUint32 h0 @ bePutUint32 h1 @ bePutUint32 h2 @ bePutUint32 h3 @
     bePutUint32 h4 @ bePutUint32 h5 @ bePutUint32 h6 @ bePutUint32 h7"

definition sha256 :: "byte list \<Rightarrow> byte list" where
  "sha256 msg = digestBytes (fold (\<lambda>p dig. block dig p) (blocks (msg @ padding (length msg))) init256)"

subsection \<open>\<^verbatim>\<open>crypto/hmac\<close>\<close>

text \<open>
  \<^verbatim>\<open>hmac.New(sha256.New, key)\<close>, \<^verbatim>\<open>Write(msg)\<close>, \<^verbatim>\<open>Sum(nil)\<close> (RFC 2104): a key longer
  than the block size of 64 bytes is replaced by its hash, the key is padded with zero
  bytes to the block size, and the tag is the hash of the outer pad followed by the
  hash of the inner pad and the message.
\<close>

definition hmac_sha256 :: "byte list \<Rightarrow> byte list \<Rightarrow> byte list" where
  "hmac_sha256 key msg =
     (let key' = (if length key > 64 then sha256 key else key);
          padded = key' @ replicate (64 - length key') 0;
          ipad = map (\<lambda>b. b XOR 0x36) padded;
          opad = map (\<lambda>b. b XOR 0x5c) padded
      in sha256 (opad @ sha256 (ipad @ msg)))"

text \<open>
  \<^verbatim>\<open>hmac.Equal\<close> is \<^verbatim>\<open>subtle.ConstantTimeCompare(mac1, mac2) == 1\<close>: the lengths are
  compared first, then the exclusive-or of every pair of bytes is accumulated and the
  accumulator is compared with zero.
\<close>

definition ConstantTimeByteEq :: "byte \<Rightarrow> byte \<Rightarrow> int" where
  "ConstantTimeByteEq x y = uint (drop_bit 31 ((ucast (x XOR y) :: uint32) - 1))"

definition ConstantTimeCompare :: "byte list \<Rightarrow> byte list \<Rightarrow> int" where
  "ConstantTimeCompare x y =
     (if length x \<noteq> length y then 0
      else ConstantTimeByteEq (fold (\<lambda>(a, b) v. v OR (a XOR b)) (zip x y) 0) 0)"

definition Equal :: "byte list \<Rightarrow> byte list \<Rightarrow> bool" where
  "Equal mac1 mac2 = (ConstantTimeCompare mac1 mac2 = 1)"

subsection \<open>\<^verbatim>\<open>encoding/hex\<close> and byte slices of strings\<close>

definition hextable :: string where
  "hextable = ''0123456789abcdef''"

fun EncodeToString :: "byte list \<Rightarrow> string" where
  "EncodeToString [] = []"
| "EncodeToString (v # src) =
     hextable ! unat (drop_bit 4 v) # hextable ! unat (v AND 0x0f) # EncodeToString src"

text \<open>The conversion \<^verbatim>\<open>[]byte(s)\<close> of a string.\<close>

definition bytes :: "string \<Rightarrow> byte list" where
  "bytes s = map (\<lambda>c. of_nat (of_char c)) s"

subsection \<open>\<^verbatim>\<open>Signer\<close>, \<^verbatim>\<open>Sign\<close> and \<^verbatim>\<open>Verify\<close>\<close>

record Signer =
  secret :: string

definition NewSigner :: "string \<Rightarrow> Signer" where
  "NewSigner secret' = \<lparr>secret = secret'\<rparr>"

datatype error = Errorf string

text \<open>
  A result \<^verbatim>\<open>(x, nil)\<close> is \<open>Inr x\<close>; a result with a non-nil error is \<open>Inl\<close> of the
  error (the value returned beside it is the zero value of its type).
\<close>

definition Sign :: "('f, 'o) stdlib \<Rightarrow> Signer \<Rightarrow> ('f, 'o) params option \<Rightarrow> error + string" where
  "Sign L s params =
     (case params of
        None \<Rightarrow> Inl (Errorf ''params cannot be nil'')
      | Some p \<Rightarrow>
          (let sigString = buildSignatureString L p;
               h = hmac_sha256 (bytes (secret s)) (bytes sigString)
           in Inr (EncodeToString h)))"

definition Verify ::
  "('f, 'o) stdlib \<Rightarrow> Signer \<Rightarrow> ('f, 'o) params option \<Rightarrow> string \<Rightarrow> error + bool" where
  "Verify L s params signature =
     (case Sign L s params of
        Inl err \<Rightarrow> Inl err
      | Inr expected \<Rightarrow> Inr (Equal (bytes expected) (bytes signature)))"

section \<open>The canonical string in the words of the specification\<close>

text \<open>
  The reference definition is stated on the mapping itself, a finite map from keys to
  values, and so does not depend on any order of traversal: an entry is dropped when
  its value is nil or the empty text, or when its textual form is empty; the surviving
  keys are sorted ascending; the pairs \<^verbatim>\<open>key=value\<close> are joined with \<^verbatim>\<open>&\<close>, with no
  separator after the last one.
\<close>

definition excluded :: "('f, 'o) stdlib \<Rightarrow> ('f, 'o) any \<Rightarrow> bool" where
  "excluded L v = (v = VNil \<or> v = VString '''' \<or> valueToString L v = '''')"

definition surviving_keys :: "('f, 'o) stdlib \<Rightarrow> (string \<rightharpoonup> ('f, 'o) any) \<Rightarrow> string set" where
  "surviving_keys L m = {k. \<exists>v. m k = Some v \<and> \<not> excluded L v}"

fun join_amp :: "string list \<Rightarrow> string" where
  "join_amp [] = ''''"
| "join_amp [p] = p"
| "join_amp (p # q # ps) = p @ ''&'' @ join_amp (q # ps)"

definition canonical_spec :: "('f, 'o) stdlib \<Rightarrow> (string \<rightharpoonup> ('f, 'o) any) \<Rightarrow> string" where
  "canonical_spec L m =
     join_amp (map (\<lambda>k. k @ ''='' @ valueToString L (the (m k)))
       (sorted_list_of_set (surviving_keys L m)))"

section \<open>Mappings and a library instance to evaluate on\<close>

text \<open>
  The mappings of the specification's scenarios, a second traversal order of the
  first, two mappings that collide, a mapping with the empty key, and an instance of
  the library parameter: floating-point numbers that are whole (rendered as the
  integer they are) and, as other values, values of a named string type (rendered as
  their text). \<open>signature_of\<close> names the string \<^verbatim>\<open>Sign\<close> returns on a non-nil mapping.
\<close>

definition params_skip :: "('f, 'o) params" where
  "params_skip =
     [(''a'', VString ''1''), (''b'', VString ''''), (''c'', VNil), (''d'', VString ''4'')]"

definition params_request :: "('f, 'o) params" where
  "params_request =
     [(''action'', VString ''create''), (''timestamp'', VString ''1234567890''),
      (''user_id'', VString ''12345'')]"

definition stdlib_whole :: "(int, string) stdlib" where
  "stdlib_whole = \<lparr>FormatFloat = (\<lambda>x bitSize. FormatInt x), Sprintf_v = (\<lambda>s. s)\<rparr>"

definition signature_of :: "('f, 'o) stdlib \<Rightarrow> Signer \<Rightarrow> ('f, 'o) params \<Rightarrow> string" where
  "signature_of L s p =
     EncodeToString (hmac_sha256 (bytes (secret s)) (bytes (buildSignatureString L p)))"

definition params_skip_other :: "('f, 'o) params" where
  "params_skip_other =
     [(''d'', VString ''4''), (''c'', VNil), (''a'', VString ''1''), (''b'', VString '''')]"

definition params_joined :: "('f, 'o) params" where
  "params_joined = [(''a'', VString ''1&b=2'')]"

definition params_split :: "('f, 'o) params" where
  "params_split = [(''a'', VString ''1''), (''b'', VString ''2'')]"

definition params_empty_key :: "('f, 'o) params" where
  "params_empty_key = [(''b'', VString ''2''), ('''', VInt 7)]"

definition params_numbers :: "'f \<Rightarrow> ('f, 'o) params" where
  "params_numbers x = [(''float64'', VFloat64 x), (''int'', VInt 123), (''int64'', VInt64 456)]"

section \<open>Properties\<close>

lemma FormatUint_small: "n < 10 \<Longrightarrow> FormatUint n = [''0123456789'' ! n]"
  by (simp add: FormatUint.simps)

lemma FormatUint_large:
  "\<not> n < 10 \<Longrightarrow> FormatUint n = FormatUint (n div 10) @ [''0123456789'' ! (n mod 10)]"
  by (subst FormatUint.simps) simp

text \<open>The cases of the package's own table test of \<^verbatim>\<open>valueToString\<close> that the model computes.\<close>

lemma valueToString_table:
  "valueToString L (VString ''test'') = ''test''"
  "valueToString L (VInt 123) = ''123''"
  "valueToString L (VInt32 123) = ''123''"
  "valueToString L (VInt64 123) = ''123''"
  "valueToString L (VUint 123) = ''123''"
  "valueToString L (VUint32 123) = ''123''"
  "valueToString L (VUint64 123) = ''123''"
  "valueToString L (VBool True) = ''true''"
  "valueToString L (VBool False) = ''false''"
  "valueToString L VNil = ''''"
  "valueToString L (VInt64 (- 456)) = ''-456''"
  by (simp_all add: Itoa_def FormatInt_def FormatBool_def FormatUint_small FormatUint_large)

subsection \<open>The three loops\<close>

lemma collectKeys_filter:
  "collectKeys params keys =
     keys @ map fst (filter (\<lambda>(k, v). v \<noteq> VNil \<and> v \<noteq> VString '''') params)"
  by (induction params keys rule: collectKeys.induct) auto

lemma buildPairs_filter:
  "buildPairs L params keys pairs =
     pairs @ map (\<lambda>k. k @ ''='' @ valueToString L (index params k))
       (filter (\<lambda>k. valueToString L (index params k) \<noteq> '''') keys)"
  by (induction L params keys pairs rule: buildPairs.induct) (auto simp: Let_def)

lemma joinPairs_pos:
  "0 < i \<Longrightarrow> joinPairs i pairs result = result @ concat (map (\<lambda>p. ''&'' @ p) pairs)"
  by (induction i pairs result rule: joinPairs.induct) auto

lemma join_amp_Cons: "join_amp (p # ps) = p @ concat (map (\<lambda>p. ''&'' @ p) ps)"
  by (induction ps arbitrary: p) auto

lemma joinPairs_join_amp: "joinPairs 0 pairs '''' = join_amp pairs"
  by (cases pairs) (simp_all add: joinPairs_pos join_amp_Cons)

lemma index_mem:
  "wf_params params \<Longrightarrow> (k, v) \<in> set params \<Longrightarrow> index params k = v"
  by (simp add: wf_params_def index_def)

lemma finite_surviving_keys: "finite (surviving_keys L (map_of params))"
proof -
  have "surviving_keys L (map_of params) \<subseteq> dom (map_of params)"
    by (auto simp: surviving_keys_def)
  then show ?thesis
    by (rule finite_subset) (rule finite_dom_map_of)
qed

lemma map_of_mem:
  "wf_params params \<Longrightarrow> (k, v) \<in> set params \<Longrightarrow> map_of params k = Some v"
  by (simp add: wf_params_def)

lemma surviving_keys_set:
  assumes wf: "wf_params params"
  shows "surviving_keys L (map_of params) =
    set (filter (\<lambda>k. valueToString L (index params k) \<noteq> '''')
      (map fst (filter (\<lambda>(k, v). v \<noteq> VNil \<and> v \<noteq> VString '''') params)))"
    (is "?A = ?B")
proof (rule set_eqI)
  fix k
  show "k \<in> ?A \<longleftrightarrow> k \<in> ?B"
  proof
    assume "k \<in> ?A"
    then obtain v where v: "map_of params k = Some v" and ex: "\<not> excluded L v"
      by (auto simp: surviving_keys_def)
    from v have mem: "(k, v) \<in> set params"
      by (rule map_of_SomeD)
    from v have "index params k = v"
      by (simp add: index_def)
    with ex mem show "k \<in> ?B"
      by (force simp: excluded_def)
  next
    assume "k \<in> ?B"
    then obtain v where mem: "(k, v) \<in> set params"
      and v: "v \<noteq> VNil" "v \<noteq> VString ''''"
      and s: "valueToString L (index params k) \<noteq> ''''"
      by auto
    from wf mem have "index params k = v" "map_of params k = Some v"
      by (simp_all add: index_mem map_of_mem)
    with v s show "k \<in> ?A"
      by (simp add: surviving_keys_def excluded_def)
  qed
qed

lemma distinct_collected:
  "wf_params params \<Longrightarrow>
   distinct (map fst (filter (\<lambda>(k, v). v \<noteq> VNil \<and> v \<noteq> VString '''') params))"
  by (simp add: wf_params_def distinct_map_filter)

lemma sort_filter_sorted_list_of_set:
  assumes "distinct ks"
  shows "filter P (sort ks) = sorted_list_of_set (set (filter P ks))"
proof -
  have "sorted_list_of_set (set (filter P ks)) = sort (remdups (filter P ks))"
    by (rule sorted_list_of_set_sort_remdups)
  also have "remdups (filter P ks) = filter P ks"
    using assms by (simp add: distinct_remdups_id)
  also have "sort (filter P ks) = filter P (sort ks)"
    by (rule filter_sort [symmetric])
  finally show ?thesis by (rule sym)
qed

lemma index_the:
  "k \<in> surviving_keys L (map_of params) \<Longrightarrow> index params k = the (map_of params k)"
  by (auto simp: surviving_keys_def index_def)

lemma buildSignatureString_canonical_spec:
  assumes wf: "wf_params params"
  shows "buildSignatureString L params = canonical_spec L (map_of params)"
proof -
  let ?ks = "map fst (filter (\<lambda>(k, v). v \<noteq> VNil \<and> v \<noteq> VString '''') params)"
  let ?S = "surviving_keys L (map_of params)"
  have keys: "collectKeys params [] = ?ks"
    by (simp add: collectKeys_filter)
  have "filter (\<lambda>k. valueToString L (index params k) \<noteq> '''') (sort ?ks) =
      sorted_list_of_set (set (filter (\<lambda>k. valueToString L (index params k) \<noteq> '''') ?ks))"
    using wf by (intro sort_filter_sorted_list_of_set distinct_collected)
  also have "\<dots> = sorted_list_of_set ?S"
    using wf by (simp only: surviving_keys_set)
  finally have kept: "filter (\<lambda>k. valueToString L (index params k) \<noteq> '''') (sort ?ks) =
      sorted_list_of_set ?S" .
  have "buildPairs L params (sort ?ks) [] =
      map (\<lambda>k. k @ ''='' @ valueToString L (index params k)) (sorted_list_of_set ?S)"
    by (simp only: buildPairs_filter kept append_Nil)
  also have "\<dots> = map (\<lambda>k. k @ ''='' @ valueToString L (the (map_of params k)))
      (sorted_list_of_set ?S)"
    by (rule map_cong) (simp_all add: finite_surviving_keys index_the)
  finally show ?thesis
    by (simp only: buildSignatureString_def canonical_spec_def keys Let_def joinPairs_join_amp)
qed

lemma same_map_map_of: "same_map p q \<Longrightarrow> map_of p = map_of q"
  by (simp add: same_map_def wf_params_def map_of_inject_set)

lemma buildSignatureString_same_map:
  assumes "same_map p q"
  shows "buildSignatureString L p = buildSignatureString L q"
proof -
  from assms have "wf_params p" "wf_params q" "map_of p = map_of q"
    by (simp_all add: same_map_def same_map_map_of)
  then show ?thesis
    by (simp only: buildSignatureString_canonical_spec)
qed

subsection \<open>Digest, tag and encoding\<close>

lemma length_digestBytes: "length (digestBytes d) = 32"
  by (induction d rule: digestBytes.induct) (simp add: bePutUint32_def)

lemma length_sha256: "length (sha256 msg) = 32"
  by (simp add: sha256_def length_digestBytes)

lemma length_hmac_sha256: "length (hmac_sha256 key msg) = 32"
  by (simp add: hmac_sha256_def Let_def length_sha256)

lemma length_EncodeToString: "length (EncodeToString src) = 2 * length src"
  by (induction src) simp_all

lemma hextable_nth: "n < 16 \<Longrightarrow> hextable ! n \<in> set ''0123456789abcdef''"
  unfolding hextable_def by (rule nth_mem) simp

lemma unat_byte: "unat (v :: byte) < 256"
  using unsigned_less [of v, where 'a = nat] by simp

lemma nibble_hi: "unat (drop_bit 4 (v :: byte)) < 16"
proof -
  have "unat (drop_bit 4 v) = unat v div 16"
    by (simp add: drop_bit_eq_div unat_div_distrib)
  with unat_byte [of v] show ?thesis by simp
qed

lemma nibble_lo: "unat ((v :: byte) AND 0x0f) < 16"
proof -
  have "unat (v AND 0x0f) \<le> unat (0x0f :: byte)"
    by (rule word_and_le1 [THEN word_le_nat_alt [THEN iffD1]])
  then show ?thesis by simp
qed

lemma set_EncodeToString: "set (EncodeToString src) \<subseteq> set ''0123456789abcdef''"
proof (induction src)
  case Nil
  show ?case by simp
next
  case (Cons v src)
  have "hextable ! unat (drop_bit 4 v) \<in> set ''0123456789abcdef''"
    by (rule hextable_nth) (rule nibble_hi)
  moreover have "hextable ! unat (v AND 0x0f) \<in> set ''0123456789abcdef''"
    by (rule hextable_nth) (rule nibble_lo)
  ultimately show ?case
    using Cons.IH by (simp del: set_simps add: insert_subset list.set(2))
qed

lemma xor_eq_0: "(a :: byte) XOR b = 0 \<longleftrightarrow> a = b"
proof
  assume "a XOR b = 0"
  then have "(a XOR b) XOR b = b" by simp
  then show "a = b" by (simp add: xor.assoc)
qed simp

lemma xor_acc:
  "fold (\<lambda>(a, b) v. v OR (a XOR b)) ps (v0 :: byte) = 0 \<longleftrightarrow>
     v0 = 0 \<and> list_all (\<lambda>(a, b). a = b) ps"
proof (induction ps arbitrary: v0)
  case Nil
  show ?case by simp
next
  case (Cons p ps)
  obtain a b where p: "p = (a, b)" by (cases p)
  have "v0 OR (a XOR b) = 0 \<longleftrightarrow> v0 = 0 \<and> a = b"
    by (simp only: or_eq_0_iff xor_eq_0)
  then show ?case
    using Cons.IH [of "v0 OR (a XOR b)"] by (simp add: p)
qed

lemma zip_all_eq:
  "length x = length y \<Longrightarrow> list_all (\<lambda>(a, b). a = b) (zip x y) \<longleftrightarrow> x = y"
  by (induction x y rule: list_induct2) auto

lemma ConstantTimeByteEq_zero: "ConstantTimeByteEq v 0 = 1 \<longleftrightarrow> v = 0"
proof (cases "v = 0")
  case True
  have "unat (drop_bit 31 (- 1 :: uint32)) = 1"
    by (simp add: unat_drop_bit_eq drop_bit_eq_div unsigned_minus_1_eq_mask mask_eq_exp_minus_1)
  then show ?thesis
    using True by (simp add: ConstantTimeByteEq_def uint_nat)
next
  case False
  let ?x = "ucast v :: uint32"
  have ux: "unat ?x = unat v"
    using unat_byte [of v] by (simp add: unsigned_ucast_eq take_bit_eq_mod)
  with False have nz: "?x \<noteq> 0"
    by (metis unsigned_eq_0_iff)
  have "unat (?x - 1) = unat v - 1"
    using nz ux by (simp add: unat_minus_one)
  then have "unat (drop_bit 31 (?x - 1)) = 0"
    using unat_byte [of v] by (simp add: drop_bit_eq_div unat_div_distrib)
  then show ?thesis
    using False by (simp add: ConstantTimeByteEq_def uint_nat)
qed

lemma Equal_iff: "Equal mac1 mac2 \<longleftrightarrow> mac1 = mac2"
proof (cases "length mac1 = length mac2")
  case True
  then show ?thesis
    by (simp add: Equal_def ConstantTimeCompare_def ConstantTimeByteEq_zero xor_acc zip_all_eq)
next
  case False
  then show ?thesis
    by (auto simp: Equal_def ConstantTimeCompare_def)
qed

lemma byte_of_char_inj:
  "(of_nat (of_char c) :: byte) = of_nat (of_char d) \<Longrightarrow> c = d"
proof -
  assume "(of_nat (of_char c) :: byte) = of_nat (of_char d)"
  then have "unat (of_nat (of_char c) :: byte) = unat (of_nat (of_char d) :: byte)"
    by simp
  then have "(of_char c :: nat) = of_char d"
    by (simp add: unat_of_nat)
  then show "c = d" by simp
qed

lemma bytes_inj: "bytes s = bytes t \<longleftrightarrow> s = t"
proof
  assume "bytes s = bytes t"
  then show "s = t"
    unfolding bytes_def
    by (rule map_inj_on [where f = "\<lambda>c. of_nat (of_char c)"]) (auto intro!: inj_onI dest: byte_of_char_inj)
qed simp

subsection \<open>\<^verbatim>\<open>Sign\<close> and \<^verbatim>\<open>Verify\<close>\<close>

lemma Sign_Some: "Sign L s (Some p) = Inr (signature_of L s p)"
  by (simp add: Sign_def signature_of_def)

lemma Sign_None: "Sign L s None = Inl (Errorf ''params cannot be nil'')"
  by (simp add: Sign_def)

lemma Verify_Some: "Verify L s (Some p) sg = Inr (sg = signature_of L s p)"
  by (auto simp: Verify_def Sign_Some Equal_iff bytes_inj)

lemma Verify_None: "Verify L s None sg = Inl (Errorf ''params cannot be nil'')"
  by (simp add: Verify_def Sign_None)

lemma length_signature_of: "length (signature_of L s p) = 64"
  by (simp add: signature_of_def length_EncodeToString length_hmac_sha256)

lemma set_signature_of: "set (signature_of L s p) \<subseteq> set ''0123456789abcdef''"
  unfolding signature_of_def by (rule set_EncodeToString)

lemma signature_of_same_map:
  "same_map p q \<Longrightarrow> signature_of L s p = signature_of L s q"
  by (simp add: signature_of_def buildSignatureString_same_map)

lemma buildSignatureString_skip:
  "buildSignatureString L params_skip = ''a=1&d=4''"
  by (simp add: buildSignatureString_def params_skip_def index_def)

lemma buildSignatureString_request:
  "buildSignatureString L params_request = ''action=create&timestamp=1234567890&user_id=12345''"
  by (simp add: buildSignatureString_def params_request_def index_def)

lemma canonical_spec_empty: "canonical_spec L Map.empty = ''''"
  by (simp add: canonical_spec_def surviving_keys_def)

text \<open>
  Claim C1. For every non-nil parameter mapping, in whatever order it is traversed,
  the string \<^verbatim>\<open>buildSignatureString\<close> returns is the canonical string of the reference
  definition: entries whose value is nil or the empty text, or whose textual form is
  empty, are dropped, the surviving keys are sorted byte-wise ascending and the pairs
  are joined with \<^verbatim>\<open>&\<close>; the empty mapping gives the empty string. The mapping
  \<^verbatim>\<open>{"a":"1","b":"","c":null,"d":"4"}\<close> gives \<^verbatim>\<open>a=1&d=4\<close> and the request mapping gives
  \<^verbatim>\<open>action=create&timestamp=1234567890&user_id=12345\<close>.
\<close>

theorem buildSignatureString_refines_spec:
  "(wf_params params \<longrightarrow> buildSignatureString L params = canonical_spec L (map_of params))
   \<and> canonical_spec L Map.empty = '''' \<and> buildSignatureString L [] = ''''
   \<and> (same_map params params_skip \<longrightarrow> buildSignatureString L params = ''a=1&d=4'')
   \<and> (same_map params params_request \<longrightarrow>
        buildSignatureString L params = ''action=create&timestamp=1234567890&user_id=12345'')"
proof (intro conjI impI)
  show "buildSignatureString L params = canonical_spec L (map_of params)" if "wf_params params"
    using that by (rule buildSignatureString_canonical_spec)
  show "canonical_spec L Map.empty = ''''"
    by (rule canonical_spec_empty)
  show "buildSignatureString L [] = ''''"
    by (simp add: buildSignatureString_def)
  show "buildSignatureString L params = ''a=1&d=4''" if "same_map params params_skip"
    using buildSignatureString_same_map [OF that, of L] by (simp only: buildSignatureString_skip)
  show "buildSignatureString L params = ''action=create&timestamp=1234567890&user_id=12345''"
    if "same_map params params_request"
    using buildSignatureString_same_map [OF that, of L] by (simp only: buildSignatureString_request)
qed

lemma same_map_skip: "same_map params_skip_other params_skip"
  by (auto simp: same_map_def wf_params_def params_skip_def params_skip_other_def)

theorem buildSignatureString_refines_spec_witness:
  "wf_params (params_skip_other :: (int, string) params)
   \<and> buildSignatureString stdlib_whole params_skip_other =
       canonical_spec stdlib_whole (map_of params_skip_other)
   \<and> same_map (params_skip_other :: (int, string) params) params_skip
   \<and> buildSignatureString stdlib_whole params_skip_other = ''a=1&d=4''"
proof -
  have sm: "same_map (params_skip_other :: (int, string) params) params_skip"
    by (rule same_map_skip)
  then have wf: "wf_params (params_skip_other :: (int, string) params)"
    by (simp add: same_map_def)
  from buildSignatureString_refines_spec [of params_skip_other stdlib_whole] sm wf
  show ?thesis by blast
qed

text \<open>
  Claim C3. \<^verbatim>\<open>Sign\<close> returns an error exactly when the mapping is nil and a signature
  on every other mapping; the empty mapping is signed over the empty canonical string.
\<close>

theorem Sign_error_iff_nil:
  "((\<exists>err. Sign L s params = Inl err) \<longleftrightarrow> params = None)
   \<and> ((\<exists>sig. Sign L s params = Inr sig) \<longleftrightarrow> params \<noteq> None)
   \<and> Sign L s (Some []) = Inr (EncodeToString (hmac_sha256 (bytes (secret s)) (bytes '''')))"
  by (cases params) (simp_all add: Sign_def buildSignatureString_def)

text \<open>
  Claim C4. On a non-nil mapping \<^verbatim>\<open>Verify\<close> never returns an error: it returns the
  boolean that says whether the supplied string is the expected signature, so a string
  of another length or one that is not hexadecimal gives false. It returns an error
  only for the nil mapping, and that error is the one \<^verbatim>\<open>Sign\<close> returns.
\<close>

theorem Verify_error_iff_nil:
  "Verify L s (Some p) sg = Inr (Sign L s (Some p) = Inr sg)
   \<and> ((\<exists>err. Verify L s params sg = Inl err) \<longleftrightarrow> params = None)
   \<and> (Verify L s params sg = Inl err \<longleftrightarrow> params = None \<and> Sign L s params = Inl err)"
  by (cases params) (auto simp: Verify_Some Verify_None Sign_Some Sign_None)

text \<open>
  Claim C5. Two non-nil mappings with the same set of (key, value) pairs, whatever the
  order of their entries, have the same canonical string and, under the same secret,
  the same signature.
\<close>

theorem Sign_order_independent:
  "same_map p q \<Longrightarrow>
     buildSignatureString L p = buildSignatureString L q \<and> Sign L s (Some p) = Sign L s (Some q)"
  by (simp add: Sign_Some signature_of_same_map buildSignatureString_same_map)

theorem Sign_order_independent_witness:
  "same_map (params_skip_other :: (int, string) params) params_skip
   \<and> buildSignatureString stdlib_whole params_skip_other = buildSignatureString stdlib_whole params_skip
   \<and> Sign stdlib_whole (NewSigner ''my-secret-key'') (Some params_skip_other) =
       Sign stdlib_whole (NewSigner ''my-secret-key'') (Some params_skip)"
proof -
  have sm: "same_map (params_skip_other :: (int, string) params) params_skip"
    by (rule same_map_skip)
  from Sign_order_independent [OF sm, of stdlib_whole "NewSigner ''my-secret-key''"] sm
  show ?thesis by blast
qed

text \<open>
  Claim C6. On every non-nil mapping, the empty one included, \<^verbatim>\<open>Sign\<close> returns the
  hexadecimal encoding of a tag of 32 bytes: a string of 64 characters, each of them
  one of \<^verbatim>\<open>0123456789abcdef\<close>.
\<close>

theorem Sign_hex64:
  "\<exists>tag. length tag = 32 \<and> Sign L s (Some p) = Inr (EncodeToString tag)
     \<and> length (EncodeToString tag) = 64
     \<and> set (EncodeToString tag) \<subseteq> set ''0123456789abcdef''"
  by (rule exI [of _ "hmac_sha256 (bytes (secret s)) (bytes (buildSignatureString L p))"])
    (simp add: Sign_def length_hmac_sha256 length_EncodeToString set_EncodeToString
      del: set_simps)

text \<open>
  Claim C2. For every non-nil mapping and every secret, \<^verbatim>\<open>Verify\<close> accepts the
  signature \<^verbatim>\<open>Sign\<close> returned for the mapping (the two calls may traverse the mapping
  in different orders), with no error, and rejects every string that differs from that
  signature in one character.
\<close>

theorem Verify_Sign:
  assumes "same_map p q"
  shows "\<exists>sig. Sign L s (Some p) = Inr sig \<and> Verify L s (Some q) sig = Inr True
    \<and> (\<forall>i c. i < length sig \<and> c \<noteq> sig ! i \<longrightarrow> Verify L s (Some q) (sig[i := c]) = Inr False)"
proof (intro exI conjI allI impI)
  show "Sign L s (Some p) = Inr (signature_of L s p)"
    by (rule Sign_Some)
  show "Verify L s (Some q) (signature_of L s p) = Inr True"
    using assms by (simp add: Verify_Some signature_of_same_map)
  show "Verify L s (Some q) ((signature_of L s p)[i := c]) = Inr False"
    if "i < length (signature_of L s p) \<and> c \<noteq> signature_of L s p ! i" for i c
  proof -
    from that have "(signature_of L s p)[i := c] \<noteq> signature_of L s p"
      by (auto simp: list_update_same_conv)
    with assms show ?thesis
      by (simp add: Verify_Some signature_of_same_map [OF assms])
  qed
qed

theorem Verify_Sign_witness:
  "same_map (params_skip_other :: (int, string) params) params_skip
   \<and> (\<exists>sig. Sign stdlib_whole (NewSigner ''my-secret-key'') (Some params_skip_other) = Inr sig
        \<and> Verify stdlib_whole (NewSigner ''my-secret-key'') (Some params_skip) sig = Inr True
        \<and> Verify stdlib_whole (NewSigner ''my-secret-key'') (Some params_skip)
             (sig[0 := CHR ''g'']) = Inr False)"
proof -
  let ?s = "NewSigner ''my-secret-key''"
  let ?p = "params_skip_other :: (int, string) params"
  have sm: "same_map ?p params_skip"
    by (rule same_map_skip)
  from Verify_Sign [OF sm, of stdlib_whole ?s]
  obtain sg where sg: "Sign stdlib_whole ?s (Some ?p) = Inr sg"
    and ok: "Verify stdlib_whole ?s (Some params_skip) sg = Inr True"
    and flip: "\<And>i c. i < length sg \<and> c \<noteq> sg ! i \<Longrightarrow>
      Verify stdlib_whole ?s (Some params_skip) (sg[i := c]) = Inr False"
    by blast
  from sg have eq: "sg = signature_of stdlib_whole ?s ?p"
    by (simp add: Sign_Some)
  then have len: "length sg = 64"
    by (simp add: length_signature_of)
  then have "sg ! 0 \<in> set sg"
    by (intro nth_mem) simp
  with eq set_signature_of [of stdlib_whole ?s ?p]
  have "sg ! 0 \<in> set ''0123456789abcdef''"
    by blast
  then have "CHR ''g'' \<noteq> sg ! 0"
    by auto
  with len have "Verify stdlib_whole ?s (Some params_skip) (sg[0 := CHR ''g'']) = Inr False"
    by (intro flip) simp
  with sm sg ok show ?thesis by blast
qed

subsection \<open>Keys and values are written as they are\<close>

text \<open>
  Claim C9. Canonicalization is not injective. Nothing is escaped, so the mapping with
  the one entry \<^verbatim>\<open>a\<close>, of value \<^verbatim>\<open>1&b=2\<close>, and the mapping with the two entries
  \<^verbatim>\<open>a\<close>, of value \<^verbatim>\<open>1\<close>, and \<^verbatim>\<open>b\<close>, of value \<^verbatim>\<open>2\<close>, are different mappings with
  the same canonical string, and \<^verbatim>\<open>Sign\<close> returns the same result for both under every
  secret.
\<close>

theorem canonicalization_not_injective:
  "wf_params params_joined \<and> wf_params params_split
   \<and> map_of params_joined \<noteq> map_of params_split
   \<and> buildSignatureString L params_joined = ''a=1&b=2''
   \<and> buildSignatureString L params_split = ''a=1&b=2''
   \<and> Sign L s (Some params_joined) = Sign L s (Some params_split)"
proof -
  have j: "buildSignatureString L params_joined = ''a=1&b=2''"
    by (simp add: buildSignatureString_def params_joined_def index_def)
  have sp: "buildSignatureString L params_split = ''a=1&b=2''"
    by (simp add: buildSignatureString_def params_split_def index_def)
  have "map_of params_joined ''b'' \<noteq> map_of params_split ''b''"
    by (simp add: params_joined_def params_split_def)
  then have ne: "map_of params_joined \<noteq> map_of params_split"
    by metis
  have "wf_params params_joined" "wf_params params_split"
    by (simp_all add: wf_params_def params_joined_def params_split_def)
  with j sp ne show ?thesis
    by (simp add: Sign_Some signature_of_def)
qed

lemma map_of_drop_key:
  "map_of (filter (\<lambda>(k, v). k \<noteq> x) ps) k = (if k = x then None else map_of ps k)"
  by (induction ps) auto

lemma join_amp_head:
  "join_amp (x # xs) = x @ (if xs = [] then '''' else ''&'' @ join_amp xs)"
  by (cases xs) simp_all

lemma join_amp_empty_iff:
  "list_all (\<lambda>x. x \<noteq> '''') xs \<Longrightarrow> join_amp xs = '''' \<longleftrightarrow> xs = []"
  by (cases xs) (simp_all add: join_amp_Cons)

lemma sorted_list_of_set_insert_least:
  assumes "finite A" "x \<notin> A" "\<forall>y\<in>A. x \<le> y"
  shows "sorted_list_of_set (insert x A) = x # sorted_list_of_set A"
proof -
  have "sorted_list_of_set (insert x A) = insort x (sorted_list_of_set A)"
    using assms by (simp add: sorted_list_of_set_insert)
  also have "\<dots> = x # sorted_list_of_set A"
    using assms by (intro insort_is_Cons) simp
  finally show ?thesis .
qed

lemma buildSignatureString_empty_key:
  assumes wf: "wf_params p" and mem: "('''', v) \<in> set p" and ne: "valueToString L v \<noteq> ''''"
  shows "buildSignatureString L p =
    ''='' @ valueToString L v @
      (let rest = buildSignatureString L (filter (\<lambda>(k, v). k \<noteq> '''') p)
       in if rest = '''' then '''' else ''&'' @ rest)"
proof -
  let ?p' = "filter (\<lambda>(k, v). k \<noteq> '''') p"
  let ?m = "map_of p" and ?m' = "map_of ?p'"
  let ?S = "surviving_keys L ?m" and ?S' = "surviving_keys L ?m'"
  let ?r = "\<lambda>m k. k @ ''='' @ valueToString L (the (m k))"
  have wf': "wf_params ?p'"
    using wf by (simp add: wf_params_def distinct_map_filter)
  have mv: "?m '''' = Some v"
    using wf mem by (rule map_of_mem)
  have m': "?m' k = (if k = '''' then None else ?m k)" for k
    by (rule map_of_drop_key)
  have nin: "'''' \<notin> ?S'"
    by (simp add: surviving_keys_def m')
  have "v \<noteq> VNil" "v \<noteq> VString ''''"
    using ne by auto
  with ne mv have S: "?S = insert '''' ?S'"
    by (auto simp: surviving_keys_def m' excluded_def)
  have fin: "finite ?S'"
    by (rule finite_surviving_keys)
  have sorted: "sorted_list_of_set ?S = '''' # sorted_list_of_set ?S'"
    unfolding S using fin nin by (intro sorted_list_of_set_insert_least) simp_all
  have same: "map (?r ?m) (sorted_list_of_set ?S') = map (?r ?m') (sorted_list_of_set ?S')"
    using fin nin by (intro map_cong refl) (auto simp: m')
  have nonempty: "list_all (\<lambda>x. x \<noteq> '''') (map (?r ?m') (sorted_list_of_set ?S'))"
    by (simp add: list_all_iff)
  have rest: "buildSignatureString L ?p' = join_amp (map (?r ?m') (sorted_list_of_set ?S'))"
    using wf' by (simp only: buildSignatureString_canonical_spec canonical_spec_def)
  have "buildSignatureString L p = join_amp (?r ?m '''' # map (?r ?m') (sorted_list_of_set ?S'))"
    using wf by (simp only: buildSignatureString_canonical_spec canonical_spec_def sorted
        list.map same)
  also have "\<dots> = ?r ?m '''' @
      (if map (?r ?m') (sorted_list_of_set ?S') = [] then ''''
       else ''&'' @ join_amp (map (?r ?m') (sorted_list_of_set ?S')))"
    by (rule join_amp_head)
  also have "?r ?m '''' = ''='' @ valueToString L v"
    by (simp add: mv)
  finally show ?thesis
    using join_amp_empty_iff [OF nonempty] by (simp add: rest Let_def)
qed

text \<open>
  Claim C10. Keys are not tested: in a mapping that holds the empty key with a value
  whose textual form \<open>v\<close> is not empty, that entry is kept and its pair \<^verbatim>\<open>=v\<close> comes
  first; the canonical string is that pair, followed, when the other entries leave a
  canonical string that is not empty, by the separator and that string. \<^verbatim>\<open>Sign\<close>
  succeeds on the mapping.
\<close>

theorem empty_key_included:
  assumes "wf_params p" and "('''', v) \<in> set p" and "valueToString L v \<noteq> ''''"
  shows "buildSignatureString L p =
      ''='' @ valueToString L v @
        (let rest = buildSignatureString L (filter (\<lambda>(k, v). k \<noteq> '''') p)
         in if rest = '''' then '''' else ''&'' @ rest)
    \<and> (\<exists>sig. Sign L s (Some p) = Inr sig)"
proof
  show "buildSignatureString L p =
      ''='' @ valueToString L v @
        (let rest = buildSignatureString L (filter (\<lambda>(k, v). k \<noteq> '''') p)
         in if rest = '''' then '''' else ''&'' @ rest)"
    using assms by (rule buildSignatureString_empty_key)
  show "\<exists>sig. Sign L s (Some p) = Inr sig"
    by (simp add: Sign_Some)
qed

lemma valueToString_VInt_7: "valueToString L (VInt 7) = ''7''"
  by (simp add: Itoa_def FormatInt_def FormatUint_small)

theorem empty_key_included_witness:
  "wf_params (params_empty_key :: (int, string) params)
   \<and> ('''', VInt 7) \<in> set (params_empty_key :: (int, string) params)
   \<and> valueToString stdlib_whole (VInt 7) \<noteq> ''''
   \<and> buildSignatureString stdlib_whole params_empty_key = ''=7&b=2''
   \<and> (\<exists>sig. Sign stdlib_whole (NewSigner ''k'') (Some params_empty_key) = Inr sig)"
proof -
  let ?p = "params_empty_key :: (int, string) params"
  have wf: "wf_params ?p"
    by (simp add: wf_params_def params_empty_key_def)
  have mem: "('''', VInt 7) \<in> set ?p"
    by (simp add: params_empty_key_def)
  have ne: "valueToString stdlib_whole (VInt 7) \<noteq> ''''"
    by (simp add: Itoa_def FormatInt_def FormatUint_small)
  have rest: "buildSignatureString stdlib_whole (filter (\<lambda>(k, v). k \<noteq> '''') ?p) = ''b=2''"
    by (simp add: params_empty_key_def buildSignatureString_def index_def)
  from empty_key_included [OF wf mem ne, of "NewSigner ''k''"] wf mem ne
  show ?thesis
    by (simp add: rest Itoa_def FormatInt_def FormatUint_small)
qed

subsection \<open>Numbers\<close>

text \<open>
  Integers are rendered in base 10. The rendering of a floating-point number is the
  library's: where it renders the value stored under \<^verbatim>\<open>float64\<close> as \<^verbatim>\<open>78.9\<close>, the
  mapping of the number scenario has the canonical string
  \<^verbatim>\<open>float64=78.9&int=123&int64=456\<close>.
\<close>

lemma buildSignatureString_numbers:
  "FormatFloat L x 64 = ''78.9'' \<Longrightarrow>
   buildSignatureString L (params_numbers x) = ''float64=78.9&int=123&int64=456''"
  by (simp add: buildSignatureString_def params_numbers_def index_def Itoa_def FormatInt_def
      FormatUint_small FormatUint_large)

end
